theory Spec2Isabelle
  imports Complex_Main "HOL-Library.Sublist"
begin

section \<open>Messages\<close>

text \<open>
  The message types the node fills in.  Only their declarations are imported by
  \<^verbatim>\<open>traj_generator.py\<close> (from geometry_msgs, nav_msgs, people_msgs, nav2_msgs and
  builtin_interfaces); the records below list their fields, and each \<open>_init\<close> constant is
  the value the Python constructor with no argument builds.  A \<^verbatim>\<open>float64\<close> field holds the
  decimal literal the source writes; the node does no arithmetic on any of them.
\<close>

record Time =
  sec :: int
  nanosec :: nat

record Header =
  stamp :: Time
  frame_id :: string

record Point =
  point_x :: real
  point_y :: real
  point_z :: real

record Quaternion =
  quat_x :: real
  quat_y :: real
  quat_z :: real
  quat_w :: real

record Pose =
  position :: Point
  orientation :: Quaternion

record PoseStamped =
  ps_header :: Header
  ps_pose :: Pose

record PoseWithCovariance =
  pwc_pose :: Pose
  covariance :: "real list"

record PoseWithCovarianceStamped =
  pwcs_header :: Header
  pwcs_pose :: PoseWithCovariance

record SetInitialPose_Request =
  req_pose :: PoseWithCovarianceStamped

record Person =
  person_name :: string
  person_position :: Point
  person_velocity :: Point
  reliability :: real
  tagnames :: "string list"
  tags :: "string list"

record People =
  people_header :: Header
  people :: "Person list"

record Path =
  path_header :: Header
  poses :: "PoseStamped list"

record ComputePathThroughPoses_Goal =
  goals :: "PoseStamped list"

record SmoothPath_Goal =
  goal_path :: Path

text \<open>Modelled from the spec: the constructors of the imported message classes, which
  are not part of the repository.  Numbers start at zero, strings and sequences empty, the
  covariance as 36 zeros and a quaternion as the identity rotation.\<close>

definition Time_init :: Time where
  "Time_init = \<lparr>sec = 0, nanosec = 0\<rparr>"

definition Header_init :: Header where
  "Header_init = \<lparr>stamp = Time_init, frame_id = []\<rparr>"

definition Point_init :: Point where
  "Point_init = \<lparr>point_x = 0, point_y = 0, point_z = 0\<rparr>"

definition Quaternion_init :: Quaternion where
  "Quaternion_init = \<lparr>quat_x = 0, quat_y = 0, quat_z = 0, quat_w = 1\<rparr>"

definition Pose_init :: Pose where
  "Pose_init = \<lparr>position = Point_init, orientation = Quaternion_init\<rparr>"

definition PoseStamped_init :: PoseStamped where
  "PoseStamped_init = \<lparr>ps_header = Header_init, ps_pose = Pose_init\<rparr>"

definition PoseWithCovariance_init :: PoseWithCovariance where
  "PoseWithCovariance_init = \<lparr>pwc_pose = Pose_init, covariance = replicate 36 0\<rparr>"

definition PoseWithCovarianceStamped_init :: PoseWithCovarianceStamped where
  "PoseWithCovarianceStamped_init =
     \<lparr>pwcs_header = Header_init, pwcs_pose = PoseWithCovariance_init\<rparr>"

definition SetInitialPose_Request_init :: SetInitialPose_Request where
  "SetInitialPose_Request_init = \<lparr>req_pose = PoseWithCovarianceStamped_init\<rparr>"

definition Person_init :: Person where
  "Person_init = \<lparr>person_name = [], person_position = Point_init,
     person_velocity = Point_init, reliability = 0, tagnames = [], tags = []\<rparr>"

definition People_init :: People where
  "People_init = \<lparr>people_header = Header_init, people = []\<rparr>"

definition ComputePathThroughPoses_Goal_init :: ComputePathThroughPoses_Goal where
  "ComputePathThroughPoses_Goal_init = \<lparr>goals = []\<rparr>"

definition SmoothPath_Goal_init :: SmoothPath_Goal where
  "SmoothPath_Goal_init = \<lparr>goal_path = \<lparr>path_header = Header_init, poses = []\<rparr>\<rparr>"


section \<open>The node and what it exchanges with the middleware\<close>

datatype action_name = ComputePathThroughPoses | SmoothPath

datatype severity = INFO | ERROR

text \<open>A completion the executor delivers: the future of \<^verbatim>\<open>send_goal_async\<close> finishes with
  a goal handle (of which the node reads \<^verbatim>\<open>accepted\<close>), the future of
  \<^verbatim>\<open>get_result_async\<close> with a result (of which the node reads \<^verbatim>\<open>result.path\<close>).\<close>

datatype event =
    GoalResponse action_name bool
  | ResultResponse action_name Path

datatype future = SendGoalFuture action_name | GetResultFuture action_name

fun future_of :: "event \<Rightarrow> future" where
  "future_of (GoalResponse a accepted) = SendGoalFuture a"
| "future_of (ResultResponse a p) = GetResultFuture a"

datatype callback =
    Cb_compute_path_through_poses_response
  | Cb_on_path_computed
  | Cb_smooth_path_response
  | Cb_on_path_smoothed

text \<open>Everything the node takes from outside, in the order it takes it.\<close>

datatype received =
    ServiceReady bool
  | ClockNow Time
  | ServerReady action_name bool
  | Notified event

text \<open>Everything the node does to the outside.\<close>

datatype operation =
    Log severity string
  | CallAsync SetInitialPose_Request
  | PublishPeople People
  | SendGoalCompute ComputePathThroughPoses_Goal
  | SendGoalSmooth SmoothPath_Goal
  | GetResultAsync action_name
  | PublishPlan Path
  | DestroyNode
  | RclpyShutdown

datatype entry = Recv received | Did operation

text \<open>
  The node's state as far as the sequence goes: the done-callbacks registered on futures
  that have not completed, whether the rclpy context is still up, and the record an
  instrumented transport keeps of every value handed to the node and every call the node
  makes, in order.
\<close>

record node =
  callbacks :: "(future \<times> callback) list"
  trace :: "entry list"
  context_ok :: bool

text \<open>What the surroundings answer: the k-th \<^verbatim>\<open>wait_for_service(timeout_sec=1.0)\<close>, the
  clock, and the two \<^verbatim>\<open>wait_for_server(timeout_sec=10.0)\<close> calls.\<close>

record env =
  service_ready :: "nat \<Rightarrow> bool"
  clock_now :: Time
  path_server_ready :: bool
  smooth_server_ready :: bool

definition did :: "operation \<Rightarrow> node \<Rightarrow> node" where
  "did op s = s\<lparr>trace := trace s @ [Did op]\<rparr>"

definition recv :: "received \<Rightarrow> node \<Rightarrow> node" where
  "recv r s = s\<lparr>trace := trace s @ [Recv r]\<rparr>"

definition add_done_callback :: "future \<Rightarrow> callback \<Rightarrow> node \<Rightarrow> node" where
  "add_done_callback f cb s = s\<lparr>callbacks := callbacks s @ [(f, cb)]\<rparr>"


section \<open>The methods of TrajGeneratorNode\<close>

definition set_initial_pose_request :: SetInitialPose_Request where
  "set_initial_pose_request =
    (let request = SetInitialPose_Request_init;
         request = (req_pose_update \<circ> pwcs_header_update \<circ> frame_id_update)
                     (\<lambda>_. ''map'') request;
         request = (req_pose_update \<circ> pwcs_pose_update \<circ> pwc_pose_update \<circ> position_update
                     \<circ> point_x_update) (\<lambda>_. 0.0) request;
         request = (req_pose_update \<circ> pwcs_pose_update \<circ> pwc_pose_update \<circ> position_update
                     \<circ> point_y_update) (\<lambda>_. 4.0) request;
         request = (req_pose_update \<circ> pwcs_pose_update \<circ> pwc_pose_update \<circ> position_update
                     \<circ> point_z_update) (\<lambda>_. 0.01) request;
         request = (req_pose_update \<circ> pwcs_pose_update \<circ> pwc_pose_update \<circ> orientation_update
                     \<circ> quat_x_update) (\<lambda>_. 0.0) request;
         request = (req_pose_update \<circ> pwcs_pose_update \<circ> pwc_pose_update \<circ> orientation_update
                     \<circ> quat_y_update) (\<lambda>_. 0.0) request;
         request = (req_pose_update \<circ> pwcs_pose_update \<circ> pwc_pose_update \<circ> orientation_update
                     \<circ> quat_z_update) (\<lambda>_. - 0.7071068) request;
         request = (req_pose_update \<circ> pwcs_pose_update \<circ> pwc_pose_update \<circ> orientation_update
                     \<circ> quat_w_update) (\<lambda>_. 0.7071068) request;
         request = (req_pose_update \<circ> pwcs_pose_update \<circ> covariance_update) (\<lambda>_.
                     [0.25, 0.0, 0.0, 0.0, 0.0, 0.0,
                      0.0, 0.25, 0.0, 0.0, 0.0, 0.0,
                      0.0, 0.0, 0.0, 0.0, 0.0, 0.0,
                      0.0, 0.0, 0.0, 0.0, 0.0, 0.0,
                      0.0, 0.0, 0.0, 0.0, 0.0, 0.0,
                      0.0, 0.0, 0.0, 0.0, 0.0, 0.0]) request
     in request)"

definition set_initial_pose :: "node \<Rightarrow> node" where
  "set_initial_pose s =
    (let s = did (CallAsync set_initial_pose_request) s;
         s = did (Log INFO ''Set initial pose called'') s
     in s)"

definition people_msg :: "Time \<Rightarrow> People" where
  "people_msg now =
    (let msg = People_init;
         msg = (people_header_update \<circ> frame_id_update) (\<lambda>_. ''map'') msg;
         msg = (people_header_update \<circ> stamp_update) (\<lambda>_. now) msg;
         person = Person_init;
         person = person_name_update (\<lambda>_. ''person1'') person;
         person = (person_position_update \<circ> point_x_update) (\<lambda>_. 0.0) person;
         person = (person_position_update \<circ> point_y_update) (\<lambda>_. 0.0) person;
         person = (person_position_update \<circ> point_z_update) (\<lambda>_. 0.0) person;
         person = (person_velocity_update \<circ> point_x_update) (\<lambda>_. 0.0) person;
         person = (person_velocity_update \<circ> point_y_update) (\<lambda>_. 1.0) person;
         person = (person_velocity_update \<circ> point_z_update) (\<lambda>_. 0.0) person;
         msg = people_update (\<lambda>ps. ps @ [person]) msg
     in msg)"

definition publish_people :: "env \<Rightarrow> node \<Rightarrow> node" where
  "publish_people e s =
    (let now = clock_now e;
         s = recv (ClockNow now) s;
         s = did (PublishPeople (people_msg now)) s;
         s = did (Log INFO ''Published people message'') s
     in s)"

text \<open>The body of the \<^verbatim>\<open>for x, y in [...]\<close> loop: one more stamped pose on the goal.\<close>

definition append_goal_pose ::
    "ComputePathThroughPoses_Goal \<Rightarrow> real \<times> real \<Rightarrow> ComputePathThroughPoses_Goal" where
  "append_goal_pose goal_msg xy =
    (let pose_stamped = PoseStamped_init;
         pose_stamped = (ps_header_update \<circ> frame_id_update) (\<lambda>_. ''map'') pose_stamped;
         pose_stamped = (ps_pose_update \<circ> position_update \<circ> point_x_update)
                          (\<lambda>_. fst xy) pose_stamped;
         pose_stamped = (ps_pose_update \<circ> position_update \<circ> point_y_update)
                          (\<lambda>_. snd xy) pose_stamped;
         pose_stamped = (ps_pose_update \<circ> orientation_update \<circ> quat_z_update)
                          (\<lambda>_. - 0.7071068) pose_stamped;
         pose_stamped = (ps_pose_update \<circ> orientation_update \<circ> quat_w_update)
                          (\<lambda>_. 0.7071068) pose_stamped
     in goals_update (\<lambda>gs. gs @ [pose_stamped]) goal_msg)"

definition compute_goal_msg :: ComputePathThroughPoses_Goal where
  "compute_goal_msg =
    (let goal_msg = ComputePathThroughPoses_Goal_init;
         goal_msg = goals_update (\<lambda>_. []) goal_msg
     in foldl append_goal_pose goal_msg [(0.0, 2.0), (- 0.8, 0.0)])"

definition compute_path_through_poses :: "env \<Rightarrow> node \<Rightarrow> node" where
  "compute_path_through_poses e s =
    (let ready = path_server_ready e;
         s = recv (ServerReady ComputePathThroughPoses ready) s
     in if \<not> ready then
          did (Log ERROR ''ComputePathThroughPoses action server not available!'') s
        else
          let s = did (Log INFO ''Sending goal to ComputePathThroughPoses'') s;
              s = did (SendGoalCompute compute_goal_msg) s
          in add_done_callback (SendGoalFuture ComputePathThroughPoses)
               Cb_compute_path_through_poses_response s)"

definition compute_path_through_poses_response :: "bool \<Rightarrow> node \<Rightarrow> node" where
  "compute_path_through_poses_response accepted s =
    (if \<not> accepted then
       did (Log ERROR ''ComputePathThroughPoses goal was rejected!'') s
     else
       let s = did (Log INFO ''ComputePathThroughPoses goal accepted!'') s;
           s = did (GetResultAsync ComputePathThroughPoses) s
       in add_done_callback (GetResultFuture ComputePathThroughPoses) Cb_on_path_computed s)"

definition smooth_path :: "env \<Rightarrow> Path \<Rightarrow> node \<Rightarrow> node" where
  "smooth_path e p s =
    (let ready = smooth_server_ready e;
         s = recv (ServerReady SmoothPath ready) s
     in if \<not> ready then
          did (Log ERROR ''SmoothPath action server not available!'') s
        else
          let goal_msg = SmoothPath_Goal_init;
              goal_msg = goal_path_update (\<lambda>_. p) goal_msg;
              s = did (Log INFO ''Sending path to SmoothPath'') s;
              s = did (SendGoalSmooth goal_msg) s
          in add_done_callback (SendGoalFuture SmoothPath) Cb_smooth_path_response s)"

definition on_path_computed :: "env \<Rightarrow> Path \<Rightarrow> node \<Rightarrow> node" where
  "on_path_computed e result_path s =
    (let s = did (Log INFO ''Path computed successfully! Sending to SmoothPath'') s
     in smooth_path e result_path s)"

definition smooth_path_response :: "bool \<Rightarrow> node \<Rightarrow> node" where
  "smooth_path_response accepted s =
    (if \<not> accepted then
       did (Log ERROR ''SmoothPath goal was rejected!'') s
     else
       let s = did (Log INFO ''SmoothPath goal accepted!'') s;
           s = did (GetResultAsync SmoothPath) s
       in add_done_callback (GetResultFuture SmoothPath) Cb_on_path_smoothed s)"

text \<open>\<^verbatim>\<open>destroy_node()\<close> destroys the node's clients, so that no done-callback of theirs
  can run any more, and \<^verbatim>\<open>rclpy.shutdown()\<close> takes the context down, which ends
  \<^verbatim>\<open>rclpy.spin\<close>.\<close>

definition shutdown :: "node \<Rightarrow> node" where
  "shutdown s =
    (let s = did (Log INFO ''Destroying node and shutting down'') s;
         s = did DestroyNode s;
         s = did RclpyShutdown s
     in s\<lparr>callbacks := [], context_ok := False\<rparr>)"

definition on_path_smoothed :: "Path \<Rightarrow> node \<Rightarrow> node" where
  "on_path_smoothed result_path s =
    (let s = did (Log INFO ''Path smoothed successfully! Publishing to /plan'') s;
         s = did (PublishPlan result_path) s;
         s = did (Log INFO ''Smoothed path published to /plan'') s;
         s = did (Log INFO ''Shutting down the node'') s
     in shutdown s)"

text \<open>
  The \<^verbatim>\<open>while not wait_for_service(timeout_sec=1.0)\<close> loop of the constructor.  It has no
  bound: when the service never reports ready it does not return, which is the value
  \<open>None\<close>.
\<close>

partial_function (option) wait_for_service_loop ::
    "(nat \<Rightarrow> bool) \<Rightarrow> nat \<Rightarrow> node \<Rightarrow> node option" where
  "wait_for_service_loop ready k s =
     (if ready k then Some (recv (ServiceReady True) s)
      else wait_for_service_loop ready (Suc k)
             (did (Log INFO ''/set_initial_pose service not available, waiting...'')
                (recv (ServiceReady False) s)))"

definition node_created :: node where
  "node_created = \<lparr>callbacks = [], trace = [], context_ok = True\<rparr>"

definition TrajGeneratorNode_init :: "env \<Rightarrow> node option" where
  "TrajGeneratorNode_init e =
    (case wait_for_service_loop (service_ready e) 0 node_created of
       None \<Rightarrow> None
     | Some s \<Rightarrow>
         Some (let s = set_initial_pose s;
                   s = publish_people e s;
                   s = compute_path_through_poses e s
               in s))"

text \<open>
  A done-callback runs with the completed future.  A \<^verbatim>\<open>send_goal_async\<close> future carries a
  goal handle and a \<^verbatim>\<open>get_result_async\<close> future a result, so the last equation is never
  reached from \<open>deliver\<close>.
\<close>

fun run_callback :: "callback \<Rightarrow> event \<Rightarrow> env \<Rightarrow> node \<Rightarrow> node" where
  "run_callback Cb_compute_path_through_poses_response (GoalResponse a accepted) e s =
     compute_path_through_poses_response accepted s"
| "run_callback Cb_on_path_computed (ResultResponse a p) e s = on_path_computed e p s"
| "run_callback Cb_smooth_path_response (GoalResponse a accepted) e s =
     smooth_path_response accepted s"
| "run_callback Cb_on_path_smoothed (ResultResponse a p) e s = on_path_smoothed p s"
| "run_callback _ _ e s = s"

text \<open>
  The executor completes a future and runs the callback registered on it.  A completion
  for a future the node never created does not exist, so it changes nothing.
\<close>

definition deliver :: "env \<Rightarrow> node \<Rightarrow> event \<Rightarrow> node" where
  "deliver e s ev =
    (case map_of (callbacks s) (future_of ev) of
       None \<Rightarrow> s
     | Some cb \<Rightarrow>
         run_callback cb ev e
           (recv (Notified ev)
              (s\<lparr>callbacks := filter (\<lambda>fc. fst fc \<noteq> future_of ev) (callbacks s)\<rparr>)))"

text \<open>\<^verbatim>\<open>rclpy.spin(node)\<close>: callbacks run one at a time for as long as the context is up.\<close>

fun spin :: "env \<Rightarrow> node \<Rightarrow> event list \<Rightarrow> node" where
  "spin e s [] = s"
| "spin e s (ev # evs) = (if context_ok s then spin e (deliver e s ev) evs else s)"

definition main :: "env \<Rightarrow> event list \<Rightarrow> node option" where
  "main e evs =
    (case TrajGeneratorNode_init e of
       None \<Rightarrow> None
     | Some s \<Rightarrow> Some (spin e s evs))"


section \<open>The sequence as an explicit state machine\<close>

text \<open>
  The callbacks chain into a line of nine situations.  The definitions of this section
  write that line down: how far a run has got (\<open>progress\<close>), what the record of the run
  reads at that point, which callback is still registered, and which completion moves the
  run on (\<open>advance\<close>).  Lemma \<open>main_Some\<close> below proves that the methods of the previous
  section produce exactly these states, so every property of a run can be read off them.
\<close>

text \<open>The record of the constructor's polling loop after \<open>n\<close> unsuccessful polls.\<close>

definition polling :: "nat \<Rightarrow> entry list" where
  "polling n =
     concat (replicate n [Recv (ServiceReady False),
        Did (Log INFO ''/set_initial_pose service not available, waiting...'')])
     @ [Recv (ServiceReady True)]"

definition constructed_trace :: "nat \<Rightarrow> Time \<Rightarrow> entry list" where
  "constructed_trace n now = polling n @
     [Did (CallAsync set_initial_pose_request),
      Did (Log INFO ''Set initial pose called''),
      Recv (ClockNow now),
      Did (PublishPeople (people_msg now)),
      Did (Log INFO ''Published people message'')]"

datatype progress =
    PathServerDown
  | AwaitPathAcceptance
  | PathRejected
  | AwaitPathResult
  | SmoothServerDown Path
  | AwaitSmoothAcceptance Path
  | SmoothRejected Path
  | AwaitSmoothResult Path
  | Terminated Path Path

definition path_goal_sent :: "entry list" where
  "path_goal_sent =
     [Recv (ServerReady ComputePathThroughPoses True),
      Did (Log INFO ''Sending goal to ComputePathThroughPoses''),
      Did (SendGoalCompute compute_goal_msg)]"

definition path_accepted :: "entry list" where
  "path_accepted = path_goal_sent @
     [Recv (Notified (GoalResponse ComputePathThroughPoses True)),
      Did (Log INFO ''ComputePathThroughPoses goal accepted!''),
      Did (GetResultAsync ComputePathThroughPoses)]"

definition smooth_goal_sent :: "Path \<Rightarrow> entry list" where
  "smooth_goal_sent p = path_accepted @
     [Recv (Notified (ResultResponse ComputePathThroughPoses p)),
      Did (Log INFO ''Path computed successfully! Sending to SmoothPath''),
      Recv (ServerReady SmoothPath True),
      Did (Log INFO ''Sending path to SmoothPath''),
      Did (SendGoalSmooth \<lparr>goal_path = p\<rparr>)]"

definition smooth_accepted :: "Path \<Rightarrow> entry list" where
  "smooth_accepted p = smooth_goal_sent p @
     [Recv (Notified (GoalResponse SmoothPath True)),
      Did (Log INFO ''SmoothPath goal accepted!''),
      Did (GetResultAsync SmoothPath)]"

fun progress_trace :: "progress \<Rightarrow> entry list" where
  "progress_trace PathServerDown =
     [Recv (ServerReady ComputePathThroughPoses False),
      Did (Log ERROR ''ComputePathThroughPoses action server not available!'')]"
| "progress_trace AwaitPathAcceptance = path_goal_sent"
| "progress_trace PathRejected = path_goal_sent @
     [Recv (Notified (GoalResponse ComputePathThroughPoses False)),
      Did (Log ERROR ''ComputePathThroughPoses goal was rejected!'')]"
| "progress_trace AwaitPathResult = path_accepted"
| "progress_trace (SmoothServerDown p) = path_accepted @
     [Recv (Notified (ResultResponse ComputePathThroughPoses p)),
      Did (Log INFO ''Path computed successfully! Sending to SmoothPath''),
      Recv (ServerReady SmoothPath False),
      Did (Log ERROR ''SmoothPath action server not available!'')]"
| "progress_trace (AwaitSmoothAcceptance p) = smooth_goal_sent p"
| "progress_trace (SmoothRejected p) = smooth_goal_sent p @
     [Recv (Notified (GoalResponse SmoothPath False)),
      Did (Log ERROR ''SmoothPath goal was rejected!'')]"
| "progress_trace (AwaitSmoothResult p) = smooth_accepted p"
| "progress_trace (Terminated p q) = smooth_accepted p @
     [Recv (Notified (ResultResponse SmoothPath q)),
      Did (Log INFO ''Path smoothed successfully! Publishing to /plan''),
      Did (PublishPlan q),
      Did (Log INFO ''Smoothed path published to /plan''),
      Did (Log INFO ''Shutting down the node''),
      Did (Log INFO ''Destroying node and shutting down''),
      Did DestroyNode,
      Did RclpyShutdown]"

fun progress_callbacks :: "progress \<Rightarrow> (future \<times> callback) list" where
  "progress_callbacks AwaitPathAcceptance =
     [(SendGoalFuture ComputePathThroughPoses, Cb_compute_path_through_poses_response)]"
| "progress_callbacks AwaitPathResult =
     [(GetResultFuture ComputePathThroughPoses, Cb_on_path_computed)]"
| "progress_callbacks (AwaitSmoothAcceptance p) =
     [(SendGoalFuture SmoothPath, Cb_smooth_path_response)]"
| "progress_callbacks (AwaitSmoothResult p) =
     [(GetResultFuture SmoothPath, Cb_on_path_smoothed)]"
| "progress_callbacks _ = []"

fun is_Terminated :: "progress \<Rightarrow> bool" where
  "is_Terminated (Terminated p q) = True"
| "is_Terminated _ = False"

definition node_at :: "nat \<Rightarrow> Time \<Rightarrow> progress \<Rightarrow> node" where
  "node_at n now pr =
     \<lparr>callbacks = progress_callbacks pr,
      trace = constructed_trace n now @ progress_trace pr,
      context_ok = (\<not> is_Terminated pr)\<rparr>"

fun advance :: "env \<Rightarrow> progress \<Rightarrow> event \<Rightarrow> progress" where
  "advance e AwaitPathAcceptance (GoalResponse ComputePathThroughPoses accepted) =
     (if accepted then AwaitPathResult else PathRejected)"
| "advance e AwaitPathResult (ResultResponse ComputePathThroughPoses p) =
     (if smooth_server_ready e then AwaitSmoothAcceptance p else SmoothServerDown p)"
| "advance e (AwaitSmoothAcceptance p) (GoalResponse SmoothPath accepted) =
     (if accepted then AwaitSmoothResult p else SmoothRejected p)"
| "advance e (AwaitSmoothResult p) (ResultResponse SmoothPath q) = Terminated p q"
| "advance e pr ev = pr"

definition first_progress :: "env \<Rightarrow> progress" where
  "first_progress e = (if path_server_ready e then AwaitPathAcceptance else PathServerDown)"


fun fits :: "env \<Rightarrow> progress \<Rightarrow> bool" where
  "fits e PathServerDown = (\<not> path_server_ready e)"
| "fits e AwaitPathAcceptance = path_server_ready e"
| "fits e PathRejected = path_server_ready e"
| "fits e AwaitPathResult = path_server_ready e"
| "fits e (SmoothServerDown p) = (path_server_ready e \<and> \<not> smooth_server_ready e)"
| "fits e (AwaitSmoothAcceptance p) = (path_server_ready e \<and> smooth_server_ready e)"
| "fits e (SmoothRejected p) = (path_server_ready e \<and> smooth_server_ready e)"
| "fits e (AwaitSmoothResult p) = (path_server_ready e \<and> smooth_server_ready e)"
| "fits e (Terminated p q) = (path_server_ready e \<and> smooth_server_ready e)"



section \<open>Operations in flight\<close>

text \<open>
  A long-running operation is in flight from the submission of its goal until the node is
  told that the goal was rejected or receives its result.  \<open>in_flight\<close> reads the
  operations in flight off a record; \<open>peak\<close> is the largest number in flight at any
  moment of a record that starts with \<open>fl\<close> in flight.
\<close>

fun in_flight_step :: "action_name list \<Rightarrow> entry \<Rightarrow> action_name list" where
  "in_flight_step fl (Did (SendGoalCompute g)) = ComputePathThroughPoses # fl"
| "in_flight_step fl (Did (SendGoalSmooth g)) = SmoothPath # fl"
| "in_flight_step fl (Recv (Notified (GoalResponse a accepted))) =
     (if accepted then fl else remove1 a fl)"
| "in_flight_step fl (Recv (Notified (ResultResponse a p))) = remove1 a fl"
| "in_flight_step fl _ = fl"

definition in_flight :: "entry list \<Rightarrow> action_name list" where
  "in_flight tr = foldl in_flight_step [] tr"

fun peak :: "action_name list \<Rightarrow> entry list \<Rightarrow> nat" where
  "peak fl [] = length fl"
| "peak fl (x # xs) = max (length fl) (peak (in_flight_step fl x) xs)"



section \<open>Sample runs\<close>

text \<open>
  An environment in which the service answers the third poll, and one in which the
  path-computation server stays away; two paths; a run that goes through, a run whose
  first goal is rejected, and a run of another environment in which the executor also
  sees completions that belong to no pending future.
\<close>

definition env_up :: env where
  "env_up = \<lparr>service_ready = (\<lambda>k. 2 \<le> k), clock_now = \<lparr>sec = 5, nanosec = 7\<rparr>,
     path_server_ready = True, smooth_server_ready = True\<rparr>"


definition env_path_down :: env where
  "env_path_down = env_up\<lparr>path_server_ready := False\<rparr>"

definition env_late :: env where
  "env_late = \<lparr>service_ready = (\<lambda>k. k = 2 \<or> 5 \<le> k), clock_now = \<lparr>sec = 5, nanosec = 7\<rparr>,
     path_server_ready = True, smooth_server_ready = True\<rparr>"

definition planned :: Path where
  "planned = \<lparr>path_header = \<lparr>stamp = \<lparr>sec = 6, nanosec = 0\<rparr>, frame_id = ''map''\<rparr>,
              poses = [PoseStamped_init]\<rparr>"

definition smoothed :: Path where
  "smoothed = \<lparr>path_header = \<lparr>stamp = \<lparr>sec = 7, nanosec = 0\<rparr>, frame_id = ''map''\<rparr>,
               poses = [PoseStamped_init, PoseStamped_init]\<rparr>"

definition run_complete :: "event list" where
  "run_complete = [GoalResponse ComputePathThroughPoses True,
                   ResultResponse ComputePathThroughPoses planned,
                   GoalResponse SmoothPath True,
                   ResultResponse SmoothPath smoothed]"


definition run_rejected :: "event list" where
  "run_rejected = [GoalResponse ComputePathThroughPoses False,
                   ResultResponse ComputePathThroughPoses planned,
                   GoalResponse SmoothPath True]"

definition run_with_strays :: "event list" where
  "run_with_strays = [GoalResponse SmoothPath True,
                      GoalResponse ComputePathThroughPoses True,
                      ResultResponse SmoothPath smoothed,
                      ResultResponse ComputePathThroughPoses planned,
                      GoalResponse SmoothPath True,
                      ResultResponse SmoothPath smoothed,
                      GoalResponse ComputePathThroughPoses False]"


section \<open>The methods follow the state machine\<close>

lemma polling_Suc:
  "polling (Suc n) = Recv (ServiceReady False) #
     Did (Log INFO ''/set_initial_pose service not available, waiting...'') # polling n"
  by (simp add: polling_def)

lemma wait_for_service_loop_Some:
  assumes "wait_for_service_loop ready k s = Some s'"
  shows "\<exists>n. ready (k + n) \<and> (\<forall>i<n. \<not> ready (k + i)) \<and> s' = s\<lparr>trace := trace s @ polling n\<rparr>"
proof (rule wait_for_service_loop.raw_induct
    [where P = "\<lambda>ready k s s'. \<exists>n. ready (k + n) \<and> (\<forall>i<n. \<not> ready (k + i)) \<and>
                  s' = s\<lparr>trace := trace s @ polling n\<rparr>", OF _ assms], goal_cases)
  case (1 loop ready k s s')
  show ?case
  proof (cases "ready k")
    case True
    with 1(2) have "s' = s\<lparr>trace := trace s @ polling 0\<rparr>"
      by (simp add: recv_def polling_def)
    with True show ?thesis by (auto intro!: exI[of _ 0])
  next
    case False
    with 1(2) have "loop ready (Suc k)
        (did (Log INFO ''/set_initial_pose service not available, waiting...'')
           (recv (ServiceReady False) s)) = Some s'"
      by simp
    from 1(1)[OF this] obtain n where n: "ready (Suc k + n)" "\<forall>i<n. \<not> ready (Suc k + i)"
      "s' = (did (Log INFO ''/set_initial_pose service not available, waiting...'')
           (recv (ServiceReady False) s))\<lparr>trace := trace (did (Log INFO ''/set_initial_pose service not available, waiting...'')
           (recv (ServiceReady False) s)) @ polling n\<rparr>"
      by blast
    have "\<forall>i<Suc n. \<not> ready (k + i)"
      using False n(2) by (auto simp: less_Suc_eq_0_disj)
    moreover have "s' = s\<lparr>trace := trace s @ polling (Suc n)\<rparr>"
      using n(3) by (simp add: did_def recv_def polling_Suc)
    ultimately show ?thesis using n(1) by (auto intro!: exI[of _ "Suc n"])
  qed
qed

lemma wait_for_service_loop_ready:
  "ready (k + n) \<Longrightarrow> (\<forall>i<n. \<not> ready (k + i)) \<Longrightarrow>
   wait_for_service_loop ready k s = Some (s\<lparr>trace := trace s @ polling n\<rparr>)"
proof (induction n arbitrary: k s)
  case 0
  then show ?case
    by (subst wait_for_service_loop.simps) (simp add: recv_def polling_def)
next
  case (Suc n)
  have nk: "\<not> ready k" using Suc.prems(2) by (metis add.right_neutral zero_less_Suc)
  have "wait_for_service_loop ready (Suc k)
          (did (Log INFO ''/set_initial_pose service not available, waiting...'')
             (recv (ServiceReady False) s)) =
        Some ((did (Log INFO ''/set_initial_pose service not available, waiting...'')
             (recv (ServiceReady False) s))\<lparr>trace := trace (did (Log INFO ''/set_initial_pose service not available, waiting...'')
             (recv (ServiceReady False) s)) @ polling n\<rparr>)"
    using Suc.prems by (intro Suc.IH) auto
  then show ?case using nk
    by (subst wait_for_service_loop.simps) (simp add: did_def recv_def polling_Suc)
qed

lemma wait_for_service_loop_never:
  "(\<forall>i. \<not> ready i) \<Longrightarrow> wait_for_service_loop ready k s = None"
  using wait_for_service_loop_Some[of ready k s] by (cases "wait_for_service_loop ready k s") auto

lemma init_Some:
  assumes "TrajGeneratorNode_init e = Some s"
  shows "\<exists>n. service_ready e n \<and> (\<forall>i<n. \<not> service_ready e i) \<and>
             s = node_at n (clock_now e) (first_progress e)"
proof -
  from assms obtain s0 where s0: "wait_for_service_loop (service_ready e) 0 node_created = Some s0"
    by (auto simp: TrajGeneratorNode_init_def split: option.splits)
  from wait_for_service_loop_Some[OF s0] obtain n where n: "service_ready e n"
     "\<forall>i<n. \<not> service_ready e i" "s0 = node_created\<lparr>trace := trace node_created @ polling n\<rparr>"
    by auto
  have "s = node_at n (clock_now e) (first_progress e)"
    using assms s0 n(3)
    by (cases "path_server_ready e")
      (simp_all add: TrajGeneratorNode_init_def node_at_def first_progress_def node_created_def
        set_initial_pose_def publish_people_def compute_path_through_poses_def
        constructed_trace_def path_goal_sent_def did_def recv_def add_done_callback_def Let_def)
  with n show ?thesis by blast
qed

lemmas handler_defs =
  deliver_def node_at_def
  compute_path_through_poses_response_def on_path_computed_def smooth_path_def
  smooth_path_response_def on_path_smoothed_def shutdown_def
  SmoothPath_Goal_init_def path_goal_sent_def path_accepted_def
  smooth_goal_sent_def smooth_accepted_def
  did_def recv_def add_done_callback_def Let_def

lemma deliver_node_at:
  "deliver e (node_at n now pr) ev = node_at n now (advance e pr ev)"
proof (cases ev)
  case (GoalResponse a accepted)
  then show ?thesis
    by (cases a; cases pr) (simp_all add: handler_defs)
next
  case (ResultResponse a p)
  then show ?thesis
    by (cases a; cases pr) (simp_all add: handler_defs)
qed

lemma spin_node_at:
  "spin e (node_at n now pr) evs = node_at n now (foldl (advance e) pr evs)"
proof (induction evs arbitrary: pr)
  case Nil
  show ?case by simp
next
  case (Cons ev evs)
  show ?case
  proof (cases "is_Terminated pr")
    case True
    then obtain p q where pr: "pr = Terminated p q" by (cases pr) auto
    have "foldl (advance e) (Terminated p q) xs = Terminated p q" for xs
      by (induction xs) auto
    then show ?thesis using pr by (simp add: node_at_def)
  next
    case False
    then show ?thesis using Cons.IH by (simp add: deliver_node_at) (simp add: node_at_def)
  qed
qed

lemma main_Some:
  assumes "main e evs = Some s"
  shows "\<exists>n. service_ready e n \<and> (\<forall>i<n. \<not> service_ready e i) \<and>
             s = node_at n (clock_now e) (foldl (advance e) (first_progress e) evs)"
  using assms init_Some[of e] by (auto simp: main_def spin_node_at split: option.splits)


lemma fits_advance: "fits e pr \<Longrightarrow> fits e (advance e pr ev)"
  by (cases "(e, pr, ev)" rule: advance.cases) auto

lemma fits_foldl: "fits e pr \<Longrightarrow> fits e (foldl (advance e) pr evs)"
  by (induction evs arbitrary: pr) (auto simp: fits_advance)

lemma main_cases:
  assumes "main e evs = Some s"
  obtains n pr where "service_ready e n" "\<forall>i<n. \<not> service_ready e i"
    "fits e pr" "s = node_at n (clock_now e) pr"
      "pr = foldl (advance e) (first_progress e) evs"
proof -
  from main_Some[OF assms] obtain n where n: "service_ready e n" "\<forall>i<n. \<not> service_ready e i"
    "s = node_at n (clock_now e) (foldl (advance e) (first_progress e) evs)" by blast
  have "fits e (first_progress e)" by (simp add: first_progress_def)
  then have "fits e (foldl (advance e) (first_progress e) evs)" by (rule fits_foldl)
  with n show thesis using that by blast
qed

lemma main_eq:
  assumes "service_ready e n" "\<forall>i<n. \<not> service_ready e i"
  shows "main e evs = Some (node_at n (clock_now e) (foldl (advance e) (first_progress e) evs))"
proof -
  have "wait_for_service_loop (service_ready e) 0 node_created =
          Some (node_created\<lparr>trace := trace node_created @ polling n\<rparr>)"
    using assms by (intro wait_for_service_loop_ready) auto
  then obtain s where s: "TrajGeneratorNode_init e = Some s"
    by (simp add: TrajGeneratorNode_init_def)
  then have m: "main e evs = Some (spin e s evs)" by (simp add: main_def)
  from main_Some[OF m] obtain k where k: "service_ready e k" "\<forall>i<k. \<not> service_ready e i"
    "spin e s evs = node_at k (clock_now e) (foldl (advance e) (first_progress e) evs)" by blast
  have "k = n" using assms k(1,2) by (meson linorder_neqE_nat)
  with m k(3) show ?thesis by simp
qed

lemma concat_map_polling:
  "f (Recv (ServiceReady False)) = [] \<Longrightarrow>
   f (Did (Log INFO ''/set_initial_pose service not available, waiting...'')) = [] \<Longrightarrow>
   f (Recv (ServiceReady True)) = [] \<Longrightarrow> concat (map f (polling n)) = []"
  by (induction n) (simp_all add: polling_Suc, simp add: polling_def)

lemma trace_node_at: "trace (node_at n now pr) = constructed_trace n now @ progress_trace pr"
  by (simp add: node_at_def)

lemmas trace_defs = constructed_trace_def path_goal_sent_def path_accepted_def
  smooth_goal_sent_def smooth_accepted_def


lemma main_None_iff: "main e evs = None \<longleftrightarrow> (\<forall>k. \<not> service_ready e k)"
proof
  assume n: "main e evs = None"
  show "\<forall>k. \<not> service_ready e k"
  proof (rule ccontr)
    assume "\<not> (\<forall>k. \<not> service_ready e k)"
    then have ex: "\<exists>k. service_ready e k" by simp
    define m where "m = (LEAST k. service_ready e k)"
    have "service_ready e m" unfolding m_def using ex by (metis LeastI)
    moreover have "\<forall>i<m. \<not> service_ready e i" unfolding m_def by (auto dest: not_less_Least)
    ultimately show False using main_eq[of e m evs] n by simp
  qed
next
  assume "\<forall>k. \<not> service_ready e k"
  then show "main e evs = None"
    using main_Some[of e evs] by (cases "main e evs") auto
qed


lemma foldl_advance_stuck:
  "progress_callbacks pr = [] \<Longrightarrow> foldl (advance e) pr evs = pr"
  by (induction evs) (cases pr; simp)+

lemma notin_polling:
  "x \<noteq> Recv (ServiceReady False) \<Longrightarrow>
   x \<noteq> Did (Log INFO ''/set_initial_pose service not available, waiting...'') \<Longrightarrow>
   x \<noteq> Recv (ServiceReady True) \<Longrightarrow> x \<notin> set (polling n)"
  by (induction n) (simp_all add: polling_Suc, simp add: polling_def)



subsection \<open>The messages written out\<close>

lemma compute_goal_msg_eq: "goals compute_goal_msg =
    [\<lparr>ps_header = \<lparr>stamp = \<lparr>sec = 0, nanosec = 0\<rparr>, frame_id = ''map''\<rparr>,
      ps_pose = \<lparr>position = \<lparr>point_x = 0.0, point_y = 2.0, point_z = 0\<rparr>,
                 orientation = \<lparr>quat_x = 0, quat_y = 0, quat_z = - 0.7071068, quat_w = 0.7071068\<rparr>\<rparr>\<rparr>,
     \<lparr>ps_header = \<lparr>stamp = \<lparr>sec = 0, nanosec = 0\<rparr>, frame_id = ''map''\<rparr>,
      ps_pose = \<lparr>position = \<lparr>point_x = - 0.8, point_y = 0.0, point_z = 0\<rparr>,
                 orientation = \<lparr>quat_x = 0, quat_y = 0, quat_z = - 0.7071068, quat_w = 0.7071068\<rparr>\<rparr>\<rparr>]"
  by (simp add: compute_goal_msg_def append_goal_pose_def ComputePathThroughPoses_Goal_init_def
        PoseStamped_init_def Header_init_def Time_init_def Pose_init_def Point_init_def
        Quaternion_init_def Let_def)

lemma set_initial_pose_request_eq: "set_initial_pose_request =
   \<lparr>req_pose = \<lparr>pwcs_header = \<lparr>stamp = \<lparr>sec = 0, nanosec = 0\<rparr>, frame_id = ''map''\<rparr>,
       pwcs_pose = \<lparr>pwc_pose = \<lparr>position = \<lparr>point_x = 0, point_y = 4, point_z = 0.01\<rparr>,
               orientation = \<lparr>quat_x = 0, quat_y = 0, quat_z = - 0.7071068,
                    quat_w = 0.7071068\<rparr>\<rparr>,
            covariance = (replicate 36 0)[0 := 0.25, 7 := 0.25]\<rparr>\<rparr>\<rparr>"
  by (simp add: set_initial_pose_request_def SetInitialPose_Request_init_def
       PoseWithCovarianceStamped_init_def PoseWithCovariance_init_def
        Header_init_def Time_init_def Pose_init_def Point_init_def
        Quaternion_init_def Let_def eval_nat_numeral)

lemma people_msg_eq: "people_msg now =
  \<lparr>people_header = \<lparr>stamp = now, frame_id = ''map''\<rparr>,
    people =
      [\<lparr>person_name = ''person1'',
          person_position = \<lparr>point_x = 0, point_y = 0, point_z = 0\<rparr>,
          person_velocity = \<lparr>point_x = 0, point_y = 1, point_z = 0\<rparr>,
          reliability = 0, tagnames = [], tags = []\<rparr>]\<rparr>"
  by (simp add: people_msg_def People_init_def Person_init_def Header_init_def Time_init_def
       Point_init_def Let_def)



subsection \<open>Reading a record up to an entry\<close>

lemma peak_bounds_prefix:
  "prefix tr T \<Longrightarrow> length (foldl in_flight_step fl tr) \<le> peak fl T"
proof (induction T arbitrary: fl tr)
  case Nil
  then show ?case by simp
next
  case (Cons x T)
  show ?case
  proof (cases tr)
    case Nil
    then show ?thesis by simp
  next
    case (Cons y tr')
    with Cons.prems have "y = x" "prefix tr' T" by auto
    with Cons.IH[of tr' "in_flight_step fl x"] Cons show ?thesis by simp
  qed
qed

lemma peak_ge: "length fl \<le> peak fl T"
  by (cases T) simp_all

lemma peak_polling: "peak fl (polling n @ T) = peak fl T"
  by (induction n) (simp_all add: polling_Suc max_absorb2 peak_ge, simp add: polling_def max_absorb2 peak_ge)

lemma in_flight_polling: "foldl in_flight_step fl (polling n) = fl"
  by (induction n) (simp_all add: polling_Suc, simp add: polling_def)


lemma unique_split:
  assumes "T = xs @ x # ys" "x \<notin> set (tl (dropWhile (\<lambda>y. y \<noteq> x) T))"
  shows "xs = takeWhile (\<lambda>y. y \<noteq> x) T"
proof -
  let ?P = "\<lambda>y. y \<noteq> x"
  have "x \<in> set T" using assms(1) by simp
  then have ne: "dropWhile ?P T \<noteq> []" by (simp add: dropWhile_eq_Nil_conv)
  then have "hd (dropWhile ?P T) = x" using hd_dropWhile[of ?P T] by simp
  with ne have d: "dropWhile ?P T = x # tl (dropWhile ?P T)" by (cases "dropWhile ?P T") auto
  have "takeWhile ?P T @ x # tl (dropWhile ?P T) = xs @ x # ys"
    using assms(1) d by (metis takeWhile_dropWhile_id)
  moreover have "x \<notin> set (takeWhile ?P T)" by (auto dest: set_takeWhileD)
  ultimately show ?thesis using assms(2)
    by (metis append_Cons_eq_iff)
qed

lemma takeWhile_polling:
  "P (Recv (ServiceReady False)) \<Longrightarrow>
   P (Did (Log INFO ''/set_initial_pose service not available, waiting...'')) \<Longrightarrow>
   P (Recv (ServiceReady True)) \<Longrightarrow> takeWhile P (polling n @ T) = polling n @ takeWhile P T"
  by (induction n) (simp_all add: polling_Suc, simp add: polling_def)

lemma dropWhile_polling:
  "P (Recv (ServiceReady False)) \<Longrightarrow>
   P (Did (Log INFO ''/set_initial_pose service not available, waiting...'')) \<Longrightarrow>
   P (Recv (ServiceReady True)) \<Longrightarrow> dropWhile P (polling n @ T) = dropWhile P T"
  by (induction n) (simp_all add: polling_Suc, simp add: polling_def)


lemma received_polling:
  "[r. Recv r \<leftarrow> polling n] = replicate n (ServiceReady False) @ [ServiceReady True]"
  by (induction n) (simp_all add: polling_Suc, simp add: polling_def)

lemma replicate_split_inj:
  "a \<noteq> b \<Longrightarrow> replicate n a @ b # xs = replicate m a @ b # ys \<Longrightarrow> n = m \<and> xs = ys"
proof (induction n arbitrary: m)
  case 0
  then show ?case by (cases m) auto
next
  case (Suc n)
  then show ?case by (cases m) auto
qed



subsection \<open>The sample runs\<close>

lemma main_run_complete:
  "main env_up run_complete = Some (node_at 2 (clock_now env_up) (Terminated planned smoothed))"
  using main_eq[of env_up 2 run_complete]
  by (simp add: first_progress_def run_complete_def env_up_def)

lemma main_run_rejected:
  "main env_up run_rejected = Some (node_at 2 (clock_now env_up) PathRejected)"
  using main_eq[of env_up 2 run_rejected]
  by (simp add: first_progress_def run_rejected_def env_up_def)

lemma main_path_down:
  "main env_path_down run_complete = Some (node_at 2 (clock_now env_path_down) PathServerDown)"
  using main_eq[of env_path_down 2 run_complete]
  by (simp add: first_progress_def run_complete_def env_path_down_def env_up_def)

lemma main_run_with_strays:
  "main env_late run_with_strays =
     Some (node_at 2 (clock_now env_late) (Terminated planned smoothed))"
  using main_eq[of env_late 2 run_with_strays]
  by (simp add: first_progress_def run_with_strays_def env_late_def)

lemma trace_run_complete:
  "trace (node_at 2 now (Terminated planned smoothed)) =
     [Recv (ServiceReady False),
      Did (Log INFO ''/set_initial_pose service not available, waiting...''),
      Recv (ServiceReady False),
      Did (Log INFO ''/set_initial_pose service not available, waiting...''),
      Recv (ServiceReady True),
      Did (CallAsync set_initial_pose_request),
      Did (Log INFO ''Set initial pose called''),
      Recv (ClockNow now),
      Did (PublishPeople (people_msg now)),
      Did (Log INFO ''Published people message''),
      Recv (ServerReady ComputePathThroughPoses True),
      Did (Log INFO ''Sending goal to ComputePathThroughPoses''),
      Did (SendGoalCompute compute_goal_msg),
      Recv (Notified (GoalResponse ComputePathThroughPoses True)),
      Did (Log INFO ''ComputePathThroughPoses goal accepted!''),
      Did (GetResultAsync ComputePathThroughPoses),
      Recv (Notified (ResultResponse ComputePathThroughPoses planned)),
      Did (Log INFO ''Path computed successfully! Sending to SmoothPath''),
      Recv (ServerReady SmoothPath True),
      Did (Log INFO ''Sending path to SmoothPath''),
      Did (SendGoalSmooth \<lparr>goal_path = planned\<rparr>),
      Recv (Notified (GoalResponse SmoothPath True)),
      Did (Log INFO ''SmoothPath goal accepted!''),
      Did (GetResultAsync SmoothPath),
      Recv (Notified (ResultResponse SmoothPath smoothed)),
      Did (Log INFO ''Path smoothed successfully! Publishing to /plan''),
      Did (PublishPlan smoothed),
      Did (Log INFO ''Smoothed path published to /plan''),
      Did (Log INFO ''Shutting down the node''),
      Did (Log INFO ''Destroying node and shutting down''),
      Did DestroyNode,
      Did RclpyShutdown]"
  by (simp add: node_at_def trace_defs polling_def eval_nat_numeral)

lemma compute_goal_msg_literal: "compute_goal_msg =
   \<lparr>goals =
    [\<lparr>ps_header = \<lparr>stamp = \<lparr>sec = 0, nanosec = 0\<rparr>, frame_id = ''map''\<rparr>,
      ps_pose = \<lparr>position = \<lparr>point_x = 0.0, point_y = 2.0, point_z = 0\<rparr>,
                 orientation = \<lparr>quat_x = 0, quat_y = 0, quat_z = - 0.7071068, quat_w = 0.7071068\<rparr>\<rparr>\<rparr>,
     \<lparr>ps_header = \<lparr>stamp = \<lparr>sec = 0, nanosec = 0\<rparr>, frame_id = ''map''\<rparr>,
      ps_pose = \<lparr>position = \<lparr>point_x = - 0.8, point_y = 0.0, point_z = 0\<rparr>,
                 orientation = \<lparr>quat_x = 0, quat_y = 0, quat_z = - 0.7071068, quat_w = 0.7071068\<rparr>\<rparr>\<rparr>]\<rparr>"
  by (simp add: compute_goal_msg_def append_goal_pose_def ComputePathThroughPoses_Goal_init_def
        PoseStamped_init_def Header_init_def Time_init_def Pose_init_def Point_init_def
        Quaternion_init_def Let_def)

lemma cov_count:
  "count_list (covariance (pwcs_pose (req_pose set_initial_pose_request))) 0 = 34"
  by (simp add: set_initial_pose_request_def Let_def)


section \<open>The claims\<close>

text \<open>
  Claim C8.  Whenever the node submits a goal to ComputePathThroughPoses, the goal holds
  exactly two stamped poses, the one at (0.0, 2.0) first and the one at (-0.8, 0.0) second,
  each in frame "map" with orientation (0, 0, -0.7071068, 0.7071068).  One such goal is
  submitted when the action server is available and none otherwise.
\<close>

theorem C8_waypoints_in_order:
  assumes "main e evs = Some s"
  shows "[g. Did (SendGoalCompute g) \<leftarrow> trace s] =
    (if path_server_ready e then
      [\<lparr>goals =
        [\<lparr>ps_header = \<lparr>stamp = \<lparr>sec = 0, nanosec = 0\<rparr>, frame_id = ''map''\<rparr>,
          ps_pose = \<lparr>position = \<lparr>point_x = 0.0, point_y = 2.0, point_z = 0\<rparr>,
                     orientation = \<lparr>quat_x = 0, quat_y = 0,
                                     quat_z = - 0.7071068, quat_w = 0.7071068\<rparr>\<rparr>\<rparr>,
         \<lparr>ps_header = \<lparr>stamp = \<lparr>sec = 0, nanosec = 0\<rparr>, frame_id = ''map''\<rparr>,
          ps_pose = \<lparr>position = \<lparr>point_x = - 0.8, point_y = 0.0, point_z = 0\<rparr>,
                     orientation = \<lparr>quat_x = 0, quat_y = 0,
                                     quat_z = - 0.7071068, quat_w = 0.7071068\<rparr>\<rparr>\<rparr>]\<rparr>]
     else [])"
  using assms
proof (rule main_cases)
  fix n pr assume "fits e pr" "s = node_at n (clock_now e) pr"
  then show ?thesis
    unfolding compute_goal_msg_literal[symmetric]
    by (cases pr) (simp_all add: trace_node_at trace_defs concat_map_polling)
qed

theorem C8_waypoints_in_order_witness:
  "main env_up run_complete =
     Some (node_at 2 (clock_now env_up) (Terminated planned smoothed))
   \<and> [g. Did (SendGoalCompute g)
        \<leftarrow> trace (node_at 2 (clock_now env_up) (Terminated planned smoothed))] =
      [\<lparr>goals =
        [\<lparr>ps_header = \<lparr>stamp = \<lparr>sec = 0, nanosec = 0\<rparr>, frame_id = ''map''\<rparr>,
          ps_pose = \<lparr>position = \<lparr>point_x = 0.0, point_y = 2.0, point_z = 0\<rparr>,
                     orientation = \<lparr>quat_x = 0, quat_y = 0,
                                     quat_z = - 0.7071068, quat_w = 0.7071068\<rparr>\<rparr>\<rparr>,
         \<lparr>ps_header = \<lparr>stamp = \<lparr>sec = 0, nanosec = 0\<rparr>, frame_id = ''map''\<rparr>,
          ps_pose = \<lparr>position = \<lparr>point_x = - 0.8, point_y = 0.0, point_z = 0\<rparr>,
                     orientation = \<lparr>quat_x = 0, quat_y = 0,
                                     quat_z = - 0.7071068, quat_w = 0.7071068\<rparr>\<rparr>\<rparr>]\<rparr>]"
proof -
  have up: "path_server_ready env_up" by (simp add: env_up_def)
  show ?thesis
    using main_run_complete C8_waypoints_in_order[OF main_run_complete] up by simp
qed

text \<open>
  Claim C9.  In every run in which the constructor gets past its wait for the
  /set_initial_pose service, exactly one People message is published: frame "map", the
  clock reading taken in \<^verbatim>\<open>publish_people\<close> as its stamp, and one person named "person1"
  at the origin with velocity (0, 1, 0).  Nothing is awaited for it.
\<close>

theorem C9_one_people_message:
  assumes "main e evs = Some s"
  shows "[m. Did (PublishPeople m) \<leftarrow> trace s] =
           [\<lparr>people_header = \<lparr>stamp = clock_now e, frame_id = ''map''\<rparr>,
             people = [\<lparr>person_name = ''person1'',
                        person_position = \<lparr>point_x = 0, point_y = 0, point_z = 0\<rparr>,
                        person_velocity = \<lparr>point_x = 0, point_y = 1, point_z = 0\<rparr>,
                        reliability = 0, tagnames = [], tags = []\<rparr>]\<rparr>]"
  using assms
proof (rule main_cases)
  fix n pr assume "s = node_at n (clock_now e) pr"
  then show ?thesis
    by (cases pr) (simp_all add: trace_node_at trace_defs concat_map_polling people_msg_eq)
qed

theorem C9_one_people_message_witness:
  "main env_up run_complete =
     Some (node_at 2 (clock_now env_up) (Terminated planned smoothed))
   \<and> [m. Did (PublishPeople m)
        \<leftarrow> trace (node_at 2 (clock_now env_up) (Terminated planned smoothed))] =
           [\<lparr>people_header = \<lparr>stamp = \<lparr>sec = 5, nanosec = 7\<rparr>, frame_id = ''map''\<rparr>,
             people = [\<lparr>person_name = ''person1'',
                        person_position = \<lparr>point_x = 0, point_y = 0, point_z = 0\<rparr>,
                        person_velocity = \<lparr>point_x = 0, point_y = 1, point_z = 0\<rparr>,
                        reliability = 0, tagnames = [], tags = []\<rparr>]\<rparr>]"
proof -
  have now: "clock_now env_up = \<lparr>sec = 5, nanosec = 7\<rparr>" by (simp add: env_up_def)
  show ?thesis
    using main_run_complete C9_one_people_message[OF main_run_complete] now by simp
qed

text \<open>
  Claim C3.  When the path-computation action server is not available within the wait,
  the last thing the run ever does is log the error: no goal is submitted to
  ComputePathThroughPoses, none to SmoothPath, nothing is published to the plan topic and
  no callback is left registered, whatever the executor delivers afterwards.
\<close>

theorem C3_path_server_unavailable:
  assumes "main e evs = Some s" and "\<not> path_server_ready e"
  shows "suffix [Recv (ServerReady ComputePathThroughPoses False),
                 Did (Log ERROR ''ComputePathThroughPoses action server not available!'')]
           (trace s)
       \<and> [g. Did (SendGoalCompute g) \<leftarrow> trace s] = []
       \<and> [g. Did (SendGoalSmooth g) \<leftarrow> trace s] = []
       \<and> [q. Did (PublishPlan q) \<leftarrow> trace s] = []
       \<and> callbacks s = []"
  using assms(1)
proof (rule main_cases)
  fix n pr assume "fits e pr" "s = node_at n (clock_now e) pr"
  then show ?thesis using assms(2)
    by (cases pr) (simp_all add: node_at_def trace_defs concat_map_polling suffix_to_prefix)
qed

theorem C3_path_server_unavailable_witness:
  "main env_path_down run_complete =
     Some (node_at 2 (clock_now env_path_down) PathServerDown)
   \<and> \<not> path_server_ready env_path_down
   \<and> suffix [Recv (ServerReady ComputePathThroughPoses False),
             Did (Log ERROR ''ComputePathThroughPoses action server not available!'')]
        (trace (node_at 2 (clock_now env_path_down) PathServerDown))
   \<and> [g. Did (SendGoalCompute g)
        \<leftarrow> trace (node_at 2 (clock_now env_path_down) PathServerDown)] = []
   \<and> [g. Did (SendGoalSmooth g)
        \<leftarrow> trace (node_at 2 (clock_now env_path_down) PathServerDown)] = []
   \<and> [q. Did (PublishPlan q)
        \<leftarrow> trace (node_at 2 (clock_now env_path_down) PathServerDown)] = []
   \<and> callbacks (node_at 2 (clock_now env_path_down) PathServerDown) = []"
proof -
  have down: "\<not> path_server_ready env_path_down"
    by (simp add: env_path_down_def)
  show ?thesis
    using main_path_down down C3_path_server_unavailable[OF main_path_down down] by blast
qed

text \<open>
  Claim C2.  In a run in which the node is told that its ComputePathThroughPoses goal was
  rejected, the handler logs the error and returns, and that is the end of the record: the
  result is never requested, no goal is submitted to SmoothPath, nothing is published to the
  plan topic and no callback is left registered, whatever the executor delivers afterwards.
\<close>

theorem C2_path_goal_rejected:
  assumes "main e evs = Some s"
    and "Recv (Notified (GoalResponse ComputePathThroughPoses False)) \<in> set (trace s)"
  shows "suffix [Recv (Notified (GoalResponse ComputePathThroughPoses False)),
                 Did (Log ERROR ''ComputePathThroughPoses goal was rejected!'')]
           (trace s)
       \<and> [a. Did (GetResultAsync a) \<leftarrow> trace s] = []
       \<and> [g. Did (SendGoalSmooth g) \<leftarrow> trace s] = []
       \<and> [q. Did (PublishPlan q) \<leftarrow> trace s] = []
       \<and> callbacks s = []"
  using assms(1)
proof (rule main_cases)
  fix n pr assume "fits e pr" "s = node_at n (clock_now e) pr"
  then show ?thesis using assms(2)
    by (cases pr)
      (simp_all add: node_at_def trace_defs concat_map_polling suffix_to_prefix notin_polling)
qed

theorem C2_path_goal_rejected_witness:
  "main env_up run_rejected = Some (node_at 2 (clock_now env_up) PathRejected)
   \<and> Recv (Notified (GoalResponse ComputePathThroughPoses False))
        \<in> set (trace (node_at 2 (clock_now env_up) PathRejected))
   \<and> suffix [Recv (Notified (GoalResponse ComputePathThroughPoses False)),
             Did (Log ERROR ''ComputePathThroughPoses goal was rejected!'')]
        (trace (node_at 2 (clock_now env_up) PathRejected))
   \<and> [a. Did (GetResultAsync a) \<leftarrow> trace (node_at 2 (clock_now env_up) PathRejected)] = []
   \<and> [g. Did (SendGoalSmooth g) \<leftarrow> trace (node_at 2 (clock_now env_up) PathRejected)] = []
   \<and> [q. Did (PublishPlan q) \<leftarrow> trace (node_at 2 (clock_now env_up) PathRejected)] = []
   \<and> callbacks (node_at 2 (clock_now env_up) PathRejected) = []"
proof -
  have rejected: "Recv (Notified (GoalResponse ComputePathThroughPoses False))
        \<in> set (trace (node_at 2 (clock_now env_up) PathRejected))"
    by (simp add: node_at_def)
  show ?thesis
    using main_run_rejected rejected C2_path_goal_rejected[OF main_run_rejected rejected]
    by blast
qed

text \<open>
  Claim C4.  The paths placed in SmoothPath goals are, in order, exactly the paths the
  node received as ComputePathThroughPoses results (none when the smoothing server is not
  available), and the paths published to the plan topic are, in order, exactly the paths
  the node received as SmoothPath results.  The node changes neither.
\<close>

theorem C4_path_pass_through:
  assumes "main e evs = Some s"
  shows "[goal_path g. Did (SendGoalSmooth g) \<leftarrow> trace s] =
           (if smooth_server_ready e
            then [p. Recv (Notified (ResultResponse ComputePathThroughPoses p)) \<leftarrow> trace s]
            else [])
       \<and> [q. Did (PublishPlan q) \<leftarrow> trace s] =
           [q. Recv (Notified (ResultResponse SmoothPath q)) \<leftarrow> trace s]"
  using assms(1)
proof (rule main_cases)
  fix n pr assume "fits e pr" "s = node_at n (clock_now e) pr"
  then show ?thesis
    by (cases pr) (simp_all add: node_at_def trace_defs concat_map_polling)
qed

theorem C4_path_pass_through_witness:
  "main env_up run_complete =
     Some (node_at 2 (clock_now env_up) (Terminated planned smoothed))
   \<and> [goal_path g. Did (SendGoalSmooth g)
        \<leftarrow> trace (node_at 2 (clock_now env_up) (Terminated planned smoothed))] = [planned]
   \<and> [q. Did (PublishPlan q)
        \<leftarrow> trace (node_at 2 (clock_now env_up) (Terminated planned smoothed))] = [smoothed]"
proof -
  have up: "smooth_server_ready env_up" by (simp add: env_up_def)
  have r1: "[p. Recv (Notified (ResultResponse ComputePathThroughPoses p))
        \<leftarrow> trace (node_at 2 (clock_now env_up) (Terminated planned smoothed))] = [planned]"
    by (simp add: trace_run_complete)
  have r2: "[q. Recv (Notified (ResultResponse SmoothPath q))
        \<leftarrow> trace (node_at 2 (clock_now env_up) (Terminated planned smoothed))] = [smoothed]"
    by (simp add: trace_run_complete)
  show ?thesis
    using main_run_complete C4_path_pass_through[OF main_run_complete] up r1 r2 by simp
qed

text \<open>
  Claim C7, amended.  The one SetInitialPose request of a run carries frame "map",
  position (0, 4, 0.01), orientation (0, 0, -0.7071068, 0.7071068) and a covariance of 36
  entries, row by row, of which entry 0 (x variance) and entry 7 (y variance) are 0.25 and
  the other 34 are zero.
\<close>

theorem C7_initial_pose_request:
  assumes "main e evs = Some s"
  shows "[r. Did (CallAsync r) \<leftarrow> trace s] = [set_initial_pose_request]
       \<and> pwcs_header (req_pose set_initial_pose_request) =
           \<lparr>stamp = \<lparr>sec = 0, nanosec = 0\<rparr>, frame_id = ''map''\<rparr>
       \<and> pwc_pose (pwcs_pose (req_pose set_initial_pose_request)) =
           \<lparr>position = \<lparr>point_x = 0, point_y = 4, point_z = 0.01\<rparr>,
            orientation = \<lparr>quat_x = 0, quat_y = 0, quat_z = - 0.7071068,
                            quat_w = 0.7071068\<rparr>\<rparr>
       \<and> covariance (pwcs_pose (req_pose set_initial_pose_request)) =
           (replicate 36 0)[0 := 0.25, 7 := 0.25]
       \<and> count_list (covariance (pwcs_pose (req_pose set_initial_pose_request))) 0 = 34"
  using assms
proof (rule main_cases)
  fix n pr assume "s = node_at n (clock_now e) pr"
  then have "[r. Did (CallAsync r) \<leftarrow> trace s] = [set_initial_pose_request]"
    by (cases pr) (simp_all add: trace_node_at trace_defs concat_map_polling)
  then show ?thesis
    by (simp add: cov_count) (simp add: set_initial_pose_request_eq)
qed

theorem C7_initial_pose_request_witness:
  "main env_up run_complete =
     Some (node_at 2 (clock_now env_up) (Terminated planned smoothed))
   \<and> [r. Did (CallAsync r)
        \<leftarrow> trace (node_at 2 (clock_now env_up) (Terminated planned smoothed))] =
      [set_initial_pose_request]
   \<and> count_list (covariance (pwcs_pose (req_pose set_initial_pose_request))) 0 = 34"
  using main_run_complete C7_initial_pose_request[OF main_run_complete] by blast

text \<open>
  The covariance of the request has 36 entries in all; the entries equal to zero are 34
  of them, not 36.
\<close>

theorem C7_zero_entries_counterexample:
  "length (covariance (pwcs_pose (req_pose set_initial_pose_request))) = 36
   \<and> count_list (covariance (pwcs_pose (req_pose set_initial_pose_request))) 0 = 34
   \<and> count_list (covariance (pwcs_pose (req_pose set_initial_pose_request))) 0 \<noteq> 36"
  by (simp add: set_initial_pose_request_def Let_def)

text \<open>
  Claim C6.  At every moment of every run at most one long-running operation is in
  flight.  A SmoothPath goal is submitted only inside the callback that the
  ComputePathThroughPoses result starts, after that result has been received, so that
  nothing is in flight when the goal goes out.
\<close>

theorem C6_one_operation_in_flight:
  assumes "main e evs = Some s"
  shows "(\<forall>tr. prefix tr (trace s) \<longrightarrow> length (in_flight tr) \<le> 1)
       \<and> (\<forall>xs g ys. trace s = xs @ Did (SendGoalSmooth g) # ys \<longrightarrow>
            in_flight xs = [] \<and>
            (\<exists>p. suffix [Recv (Notified (ResultResponse ComputePathThroughPoses p)),
                     Did (Log INFO ''Path computed successfully! Sending to SmoothPath''),
                     Recv (ServerReady SmoothPath True),
                     Did (Log INFO ''Sending path to SmoothPath'')] xs))"
  using assms(1)
proof (rule main_cases)
  fix n pr assume pr: "fits e pr" "s = node_at n (clock_now e) pr"
  have pk: "peak [] (trace s) \<le> 1"
    using pr by (cases pr) (simp_all add: node_at_def trace_defs peak_polling)
  have a: "length (in_flight tr) \<le> 1" if "prefix tr (trace s)" for tr
    using peak_bounds_prefix[OF that, of "[]"] pk by (simp add: in_flight_def)
  have b: "in_flight xs = [] \<and>
            (\<exists>p. suffix [Recv (Notified (ResultResponse ComputePathThroughPoses p)),
                     Did (Log INFO ''Path computed successfully! Sending to SmoothPath''),
                     Recv (ServerReady SmoothPath True),
                     Did (Log INFO ''Sending path to SmoothPath'')] xs)"
    if t: "trace s = xs @ Did (SendGoalSmooth g) # ys" for xs g ys
  proof -
    have m: "Did (SendGoalSmooth g) \<in> set (trace s)" using t by simp
    have u: "Did (SendGoalSmooth g)
               \<notin> set (tl (dropWhile (\<lambda>y. y \<noteq> Did (SendGoalSmooth g)) (trace s)))"
      using pr m
      by (cases pr) (auto simp add: node_at_def trace_defs dropWhile_polling notin_polling)
    have xs: "xs = takeWhile (\<lambda>y. y \<noteq> Did (SendGoalSmooth g)) (trace s)"
      using unique_split[OF t u] .
    show ?thesis unfolding xs using pr m
      by (cases pr)
        (auto simp add: node_at_def trace_defs takeWhile_polling notin_polling
           suffix_to_prefix in_flight_def in_flight_polling)
  qed
  from a b show ?thesis by blast
qed

theorem C6_one_operation_in_flight_witness:
  "main env_up run_complete =
     Some (node_at 2 (clock_now env_up) (Terminated planned smoothed))
   \<and> prefix (take 21 (trace (node_at 2 (clock_now env_up) (Terminated planned smoothed))))
        (trace (node_at 2 (clock_now env_up) (Terminated planned smoothed)))
   \<and> length (in_flight
        (take 21 (trace (node_at 2 (clock_now env_up) (Terminated planned smoothed))))) \<le> 1
   \<and> trace (node_at 2 (clock_now env_up) (Terminated planned smoothed)) =
        take 20 (trace (node_at 2 (clock_now env_up) (Terminated planned smoothed)))
        @ Did (SendGoalSmooth \<lparr>goal_path = planned\<rparr>)
        # drop 21 (trace (node_at 2 (clock_now env_up) (Terminated planned smoothed)))
   \<and> in_flight (take 20 (trace (node_at 2 (clock_now env_up) (Terminated planned smoothed))))
        = []"
proof -
  let ?T = "trace (node_at 2 (clock_now env_up) (Terminated planned smoothed))"
  have p: "prefix (take 21 ?T) ?T" by (rule take_is_prefix)
  have t: "?T = take 20 ?T @ Did (SendGoalSmooth \<lparr>goal_path = planned\<rparr>) # drop 21 ?T"
    by (simp add: trace_run_complete)
  from C6_one_operation_in_flight[OF main_run_complete] p t
  have "length (in_flight (take 21 ?T)) \<le> 1" and "in_flight (take 20 ?T) = []"
    by blast+
  with main_run_complete p t show ?thesis by blast
qed

text \<open>
  Claim C5.  The node is destroyed and the rclpy context shut down in exactly the runs
  that have published the smoothed path, and then right after the publication, with only
  log lines in between; the record ends there.  In a run in which an action server was
  not available or a goal was rejected, the record ends with the error log: the node is
  not destroyed, the context stays up, no callback is registered and further completions
  change nothing.
\<close>

theorem C5_shutdown_iff_published:
  assumes "main e evs = Some s"
  shows "(Did DestroyNode \<in> set (trace s) \<longleftrightarrow> [q. Did (PublishPlan q) \<leftarrow> trace s] \<noteq> [])
       \<and> (Did RclpyShutdown \<in> set (trace s) \<longleftrightarrow> [q. Did (PublishPlan q) \<leftarrow> trace s] \<noteq> [])
       \<and> (context_ok s \<longleftrightarrow> [q. Did (PublishPlan q) \<leftarrow> trace s] = [])
       \<and> (\<forall>q. Did (PublishPlan q) \<in> set (trace s) \<longrightarrow>
             suffix [Did (PublishPlan q),
                     Did (Log INFO ''Smoothed path published to /plan''),
                     Did (Log INFO ''Shutting down the node''),
                     Did (Log INFO ''Destroying node and shutting down''),
                     Did DestroyNode, Did RclpyShutdown] (trace s))
       \<and> (\<forall>a r. (r = ServerReady a False \<or> r = Notified (GoalResponse a False)) \<longrightarrow>
             Recv r \<in> set (trace s) \<longrightarrow>
               (\<exists>msg. suffix [Recv r, Did (Log ERROR msg)] (trace s))
               \<and> Did DestroyNode \<notin> set (trace s) \<and> Did RclpyShutdown \<notin> set (trace s)
               \<and> context_ok s \<and> callbacks s = [] \<and> (\<forall>evs'. spin e s evs' = s))"
  using assms(1)
proof (rule main_cases)
  fix n pr assume pr: "fits e pr" "s = node_at n (clock_now e) pr"
  have stuck: "spin e s evs' = s" if "progress_callbacks pr = []" for evs'
    using that pr(2) by (simp add: spin_node_at foldl_advance_stuck)
  have 1: "(Did DestroyNode \<in> set (trace s) \<longleftrightarrow> [q. Did (PublishPlan q) \<leftarrow> trace s] \<noteq> [])"
    using pr by (cases pr) (simp_all add: node_at_def trace_defs concat_map_polling notin_polling)
  have 2: "(Did RclpyShutdown \<in> set (trace s) \<longleftrightarrow> [q. Did (PublishPlan q) \<leftarrow> trace s] \<noteq> [])"
    using pr by (cases pr) (simp_all add: node_at_def trace_defs concat_map_polling notin_polling)
  have 3: "(context_ok s \<longleftrightarrow> [q. Did (PublishPlan q) \<leftarrow> trace s] = [])"
    using pr by (cases pr) (simp_all add: node_at_def trace_defs concat_map_polling notin_polling)
  have 4: "suffix [Did (PublishPlan q),
                     Did (Log INFO ''Smoothed path published to /plan''),
                     Did (Log INFO ''Shutting down the node''),
                     Did (Log INFO ''Destroying node and shutting down''),
                     Did DestroyNode, Did RclpyShutdown] (trace s)"
    if "Did (PublishPlan q) \<in> set (trace s)" for q
    using pr that
    by (cases pr) (simp_all add: node_at_def trace_defs notin_polling suffix_to_prefix)
  have 5: "(\<exists>msg. suffix [Recv r, Did (Log ERROR msg)] (trace s))
               \<and> Did DestroyNode \<notin> set (trace s) \<and> Did RclpyShutdown \<notin> set (trace s)
               \<and> context_ok s \<and> callbacks s = [] \<and> progress_callbacks pr = []"
    if "r = ServerReady a False \<or> r = Notified (GoalResponse a False)"
       "Recv r \<in> set (trace s)" for a r
    using pr that
    by (cases pr; cases a)
      (auto simp add: node_at_def trace_defs notin_polling suffix_to_prefix)
  from 1 2 3 4 5 stuck show ?thesis by blast
qed

theorem C5_shutdown_iff_published_witness:
  "main env_up run_complete =
     Some (node_at 2 (clock_now env_up) (Terminated planned smoothed))
   \<and> Did (PublishPlan smoothed)
        \<in> set (trace (node_at 2 (clock_now env_up) (Terminated planned smoothed)))
   \<and> suffix [Did (PublishPlan smoothed),
             Did (Log INFO ''Smoothed path published to /plan''),
             Did (Log INFO ''Shutting down the node''),
             Did (Log INFO ''Destroying node and shutting down''),
             Did DestroyNode, Did RclpyShutdown]
        (trace (node_at 2 (clock_now env_up) (Terminated planned smoothed)))
   \<and> main env_up run_rejected = Some (node_at 2 (clock_now env_up) PathRejected)
   \<and> Recv (Notified (GoalResponse ComputePathThroughPoses False))
        \<in> set (trace (node_at 2 (clock_now env_up) PathRejected))
   \<and> Did DestroyNode \<notin> set (trace (node_at 2 (clock_now env_up) PathRejected))
   \<and> context_ok (node_at 2 (clock_now env_up) PathRejected)
   \<and> spin env_up (node_at 2 (clock_now env_up) PathRejected) run_complete =
        node_at 2 (clock_now env_up) PathRejected"
proof -
  have published: "Did (PublishPlan smoothed)
        \<in> set (trace (node_at 2 (clock_now env_up) (Terminated planned smoothed)))"
    by (simp add: trace_run_complete)
  have rejected: "Recv (Notified (GoalResponse ComputePathThroughPoses False))
        \<in> set (trace (node_at 2 (clock_now env_up) PathRejected))"
    by (simp add: node_at_def)
  show ?thesis
    using main_run_complete published C5_shutdown_iff_published[OF main_run_complete]
      main_run_rejected rejected C5_shutdown_iff_published[OF main_run_rejected]
    by blast
qed

text \<open>
  Claim C10.  Two runs that are handed the same values in the same order (the answers of
  the availability checks, the clock reading, the acceptance decisions and the result
  paths) make the same calls with the same contents in the same order: their records are
  equal.
\<close>

theorem C10_same_inputs_same_outputs:
  assumes "main e1 evs1 = Some s1" and "main e2 evs2 = Some s2"
    and "[r. Recv r \<leftarrow> trace s1] = [r. Recv r \<leftarrow> trace s2]"
  shows "[op. Did op \<leftarrow> trace s1] = [op. Did op \<leftarrow> trace s2] \<and> trace s1 = trace s2"
proof -
  from assms(1) obtain n1 pr1 where 1: "s1 = node_at n1 (clock_now e1) pr1"
    by (rule main_cases)
  from assms(2) obtain n2 pr2 where 2: "s2 = node_at n2 (clock_now e2) pr2"
    by (rule main_cases)
  let ?r1 = "ClockNow (clock_now e1) # [r. Recv r \<leftarrow> progress_trace pr1]"
  let ?r2 = "ClockNow (clock_now e2) # [r. Recv r \<leftarrow> progress_trace pr2]"
  have "replicate n1 (ServiceReady False) @ ServiceReady True # ?r1 =
        replicate n2 (ServiceReady False) @ ServiceReady True # ?r2"
    using assms(3) unfolding 1 2
    by (simp add: node_at_def constructed_trace_def received_polling)
  then have n: "n1 = n2" and r: "?r1 = ?r2"
    using replicate_split_inj[of "ServiceReady False" "ServiceReady True" n1 ?r1 n2 ?r2]
    by auto
  from r have "clock_now e1 = clock_now e2 \<and> pr1 = pr2"
    by (cases pr1; cases pr2) (simp_all add: trace_defs)
  with n 1 2 show ?thesis by simp
qed

theorem C10_same_inputs_same_outputs_witness:
  "main env_up run_complete =
     Some (node_at 2 (clock_now env_up) (Terminated planned smoothed))
   \<and> main env_late run_with_strays =
     Some (node_at 2 (clock_now env_late) (Terminated planned smoothed))
   \<and> [r. Recv r \<leftarrow> trace (node_at 2 (clock_now env_up) (Terminated planned smoothed))] =
     [r. Recv r \<leftarrow> trace (node_at 2 (clock_now env_late) (Terminated planned smoothed))]
   \<and> [op. Did op \<leftarrow> trace (node_at 2 (clock_now env_up) (Terminated planned smoothed))] =
     [op. Did op \<leftarrow> trace (node_at 2 (clock_now env_late) (Terminated planned smoothed))]"
proof -
  have same: "[r. Recv r \<leftarrow> trace (node_at 2 (clock_now env_up) (Terminated planned smoothed))] =
     [r. Recv r \<leftarrow> trace (node_at 2 (clock_now env_late) (Terminated planned smoothed))]"
    by (simp add: env_up_def env_late_def)
  show ?thesis
    using main_run_complete main_run_with_strays same
      C10_same_inputs_same_outputs[OF main_run_complete main_run_with_strays same]
    by blast
qed

text \<open>
  Claim C1, amended.  The People message is published after the SetInitialPose call has
  been made, and the ComputePathThroughPoses goal is submitted after both, in each case
  before any completion has been delivered to the node: the three run back to back in the
  constructor, and the response to SetInitialPose is awaited nowhere.  A SmoothPath goal
  is submitted only after the ComputePathThroughPoses goal has gone out and its acceptance
  and its result have been received, and it carries that result.  The plan is published
  only after the SmoothPath goal has gone out and its acceptance and its result have been
  received.
\<close>

theorem C1_step_order:
  assumes "main e evs = Some s"
  shows "(\<forall>xs m ys. trace s = xs @ Did (PublishPeople m) # ys \<longrightarrow>
            [r. Did (CallAsync r) \<leftarrow> xs] = [set_initial_pose_request]
          \<and> [ev. Recv (Notified ev) \<leftarrow> xs] = [])
       \<and> (\<forall>xs g ys. trace s = xs @ Did (SendGoalCompute g) # ys \<longrightarrow>
            [r. Did (CallAsync r) \<leftarrow> xs] = [set_initial_pose_request]
          \<and> [m. Did (PublishPeople m) \<leftarrow> xs] = [people_msg (clock_now e)]
          \<and> [ev. Recv (Notified ev) \<leftarrow> xs] = [])
       \<and> (\<forall>xs g ys. trace s = xs @ Did (SendGoalSmooth g) # ys \<longrightarrow>
            [g'. Did (SendGoalCompute g') \<leftarrow> xs] = [compute_goal_msg]
          \<and> [ev. Recv (Notified ev) \<leftarrow> xs] =
              [GoalResponse ComputePathThroughPoses True,
               ResultResponse ComputePathThroughPoses (goal_path g)])
       \<and> (\<forall>xs q ys. trace s = xs @ Did (PublishPlan q) # ys \<longrightarrow>
            (\<exists>p. [g. Did (SendGoalSmooth g) \<leftarrow> xs] = [\<lparr>goal_path = p\<rparr>]
               \<and> [ev. Recv (Notified ev) \<leftarrow> xs] =
                   [GoalResponse ComputePathThroughPoses True,
                    ResultResponse ComputePathThroughPoses p,
                    GoalResponse SmoothPath True,
                    ResultResponse SmoothPath q]))"
  using assms(1)
proof (rule main_cases)
  fix n pr assume pr: "fits e pr" "s = node_at n (clock_now e) pr"
  have once: "x \<notin> set (tl (dropWhile (\<lambda>y. y \<noteq> x) (trace s)))"
    if "x \<in> set (trace s)"
       "(\<exists>m. x = Did (PublishPeople m)) \<or> (\<exists>g. x = Did (SendGoalCompute g))
        \<or> (\<exists>g. x = Did (SendGoalSmooth g)) \<or> (\<exists>q. x = Did (PublishPlan q))" for x
    using pr that
    by (cases pr) (auto simp add: node_at_def trace_defs dropWhile_polling notin_polling)
  have before: "xs = takeWhile (\<lambda>y. y \<noteq> x) (trace s)"
    if "trace s = xs @ x # ys"
       "(\<exists>m. x = Did (PublishPeople m)) \<or> (\<exists>g. x = Did (SendGoalCompute g))
        \<or> (\<exists>g. x = Did (SendGoalSmooth g)) \<or> (\<exists>q. x = Did (PublishPlan q))" for x xs ys
  proof -
    have "x \<in> set (trace s)" using that(1) by simp
    from unique_split[OF that(1) once[OF this that(2)]] show ?thesis .
  qed
  have 1: "[r. Did (CallAsync r) \<leftarrow> xs] = [set_initial_pose_request]
          \<and> [ev. Recv (Notified ev) \<leftarrow> xs] = []"
    if t: "trace s = xs @ Did (PublishPeople m) # ys" for xs m ys
  proof -
    have m: "Did (PublishPeople m) \<in> set (trace s)" using t by simp
    have xs: "xs = takeWhile (\<lambda>y. y \<noteq> Did (PublishPeople m)) (trace s)"
      using before[OF t] by blast
    show ?thesis unfolding xs using pr m
      by (cases pr)
        (auto simp add: node_at_def trace_defs takeWhile_polling notin_polling
           concat_map_polling)
  qed
  have 2: "[r. Did (CallAsync r) \<leftarrow> xs] = [set_initial_pose_request]
          \<and> [m. Did (PublishPeople m) \<leftarrow> xs] = [people_msg (clock_now e)]
          \<and> [ev. Recv (Notified ev) \<leftarrow> xs] = []"
    if t: "trace s = xs @ Did (SendGoalCompute g) # ys" for xs g ys
  proof -
    have m: "Did (SendGoalCompute g) \<in> set (trace s)" using t by simp
    have xs: "xs = takeWhile (\<lambda>y. y \<noteq> Did (SendGoalCompute g)) (trace s)"
      using before[OF t] by blast
    show ?thesis unfolding xs using pr m
      by (cases pr)
        (auto simp add: node_at_def trace_defs takeWhile_polling notin_polling
           concat_map_polling)
  qed
  have 3: "[g'. Did (SendGoalCompute g') \<leftarrow> xs] = [compute_goal_msg]
          \<and> [ev. Recv (Notified ev) \<leftarrow> xs] =
              [GoalResponse ComputePathThroughPoses True,
               ResultResponse ComputePathThroughPoses (goal_path g)]"
    if t: "trace s = xs @ Did (SendGoalSmooth g) # ys" for xs g ys
  proof -
    have m: "Did (SendGoalSmooth g) \<in> set (trace s)" using t by simp
    have xs: "xs = takeWhile (\<lambda>y. y \<noteq> Did (SendGoalSmooth g)) (trace s)"
      using before[OF t] by blast
    show ?thesis unfolding xs using pr m
      by (cases pr)
        (auto simp add: node_at_def trace_defs takeWhile_polling notin_polling
           concat_map_polling)
  qed
  have 4: "\<exists>p. [g. Did (SendGoalSmooth g) \<leftarrow> xs] = [\<lparr>goal_path = p\<rparr>]
               \<and> [ev. Recv (Notified ev) \<leftarrow> xs] =
                   [GoalResponse ComputePathThroughPoses True,
                    ResultResponse ComputePathThroughPoses p,
                    GoalResponse SmoothPath True,
                    ResultResponse SmoothPath q]"
    if t: "trace s = xs @ Did (PublishPlan q) # ys" for xs q ys
  proof -
    have m: "Did (PublishPlan q) \<in> set (trace s)" using t by simp
    have xs: "xs = takeWhile (\<lambda>y. y \<noteq> Did (PublishPlan q)) (trace s)"
      using before[OF t] by blast
    show ?thesis unfolding xs using pr m
      by (cases pr)
        (auto simp add: node_at_def trace_defs takeWhile_polling notin_polling
           concat_map_polling)
  qed
  from 1 2 3 4 show ?thesis by blast
qed

theorem C1_step_order_witness:
  "main env_up run_complete =
     Some (node_at 2 (clock_now env_up) (Terminated planned smoothed))
   \<and> trace (node_at 2 (clock_now env_up) (Terminated planned smoothed)) =
       take 8 (trace (node_at 2 (clock_now env_up) (Terminated planned smoothed)))
       @ Did (PublishPeople (people_msg (clock_now env_up)))
       # drop 9 (trace (node_at 2 (clock_now env_up) (Terminated planned smoothed)))
   \<and> [ev. Recv (Notified ev)
        \<leftarrow> take 8 (trace (node_at 2 (clock_now env_up) (Terminated planned smoothed)))] = []
   \<and> trace (node_at 2 (clock_now env_up) (Terminated planned smoothed)) =
       take 12 (trace (node_at 2 (clock_now env_up) (Terminated planned smoothed)))
       @ Did (SendGoalCompute compute_goal_msg)
       # drop 13 (trace (node_at 2 (clock_now env_up) (Terminated planned smoothed)))
   \<and> [ev. Recv (Notified ev)
        \<leftarrow> take 12 (trace (node_at 2 (clock_now env_up) (Terminated planned smoothed)))] = []
   \<and> trace (node_at 2 (clock_now env_up) (Terminated planned smoothed)) =
       take 20 (trace (node_at 2 (clock_now env_up) (Terminated planned smoothed)))
       @ Did (SendGoalSmooth \<lparr>goal_path = planned\<rparr>)
       # drop 21 (trace (node_at 2 (clock_now env_up) (Terminated planned smoothed)))
   \<and> [ev. Recv (Notified ev)
        \<leftarrow> take 20 (trace (node_at 2 (clock_now env_up) (Terminated planned smoothed)))] =
       [GoalResponse ComputePathThroughPoses True,
        ResultResponse ComputePathThroughPoses planned]
   \<and> trace (node_at 2 (clock_now env_up) (Terminated planned smoothed)) =
       take 26 (trace (node_at 2 (clock_now env_up) (Terminated planned smoothed)))
       @ Did (PublishPlan smoothed)
       # drop 27 (trace (node_at 2 (clock_now env_up) (Terminated planned smoothed)))
   \<and> [ev. Recv (Notified ev)
        \<leftarrow> take 26 (trace (node_at 2 (clock_now env_up) (Terminated planned smoothed)))] =
       [GoalResponse ComputePathThroughPoses True,
        ResultResponse ComputePathThroughPoses planned,
        GoalResponse SmoothPath True,
        ResultResponse SmoothPath smoothed]"
proof -
  let ?T = "trace (node_at 2 (clock_now env_up) (Terminated planned smoothed))"
  note order = C1_step_order[OF main_run_complete]
  have t1: "?T = take 8 ?T @ Did (PublishPeople (people_msg (clock_now env_up))) # drop 9 ?T"
    by (simp add: trace_run_complete)
  have t2: "?T = take 12 ?T @ Did (SendGoalCompute compute_goal_msg) # drop 13 ?T"
    by (simp add: trace_run_complete)
  have t3: "?T = take 20 ?T @ Did (SendGoalSmooth \<lparr>goal_path = planned\<rparr>) # drop 21 ?T"
    by (simp add: trace_run_complete)
  have t4: "?T = take 26 ?T @ Did (PublishPlan smoothed) # drop 27 ?T"
    by (simp add: trace_run_complete)
  have c1: "[ev. Recv (Notified ev) \<leftarrow> take 8 ?T] = []"
    using order t1 by blast
  have c2: "[ev. Recv (Notified ev) \<leftarrow> take 12 ?T] = []"
    using order t2 by blast
  have "[ev. Recv (Notified ev) \<leftarrow> take 20 ?T] =
       [GoalResponse ComputePathThroughPoses True,
        ResultResponse ComputePathThroughPoses (goal_path \<lparr>goal_path = planned\<rparr>)]"
    using order t3 by blast
  then have c3: "[ev. Recv (Notified ev) \<leftarrow> take 20 ?T] =
       [GoalResponse ComputePathThroughPoses True,
        ResultResponse ComputePathThroughPoses planned]"
    by simp
  obtain p where p: "[g. Did (SendGoalSmooth g) \<leftarrow> take 26 ?T] = [\<lparr>goal_path = p\<rparr>]"
      "[ev. Recv (Notified ev) \<leftarrow> take 26 ?T] =
         [GoalResponse ComputePathThroughPoses True,
          ResultResponse ComputePathThroughPoses p,
          GoalResponse SmoothPath True,
          ResultResponse SmoothPath smoothed]"
    using order t4 by blast
  have "[g. Did (SendGoalSmooth g) \<leftarrow> take 26 ?T] = [\<lparr>goal_path = planned\<rparr>]"
    by (simp add: trace_run_complete)
  with p(1) have "p = planned" by simp
  with p(2) have c4: "[ev. Recv (Notified ev) \<leftarrow> take 26 ?T] =
         [GoalResponse ComputePathThroughPoses True,
          ResultResponse ComputePathThroughPoses planned,
          GoalResponse SmoothPath True,
          ResultResponse SmoothPath smoothed]"
    by simp
  from main_run_complete t1 c1 t2 c2 t3 c3 t4 c4 show ?thesis by blast
qed

text \<open>
  The run of \<open>env_up\<close> to which the executor delivers nothing: the SetInitialPose call,
  the People message and the ComputePathThroughPoses goal have all gone out, and the node
  has received no completion of any step.
\<close>

theorem C1_steps_without_completion_counterexample:
  "map_option trace (main env_up []) = Some
     [Recv (ServiceReady False),
      Did (Log INFO ''/set_initial_pose service not available, waiting...''),
      Recv (ServiceReady False),
      Did (Log INFO ''/set_initial_pose service not available, waiting...''),
      Recv (ServiceReady True),
      Did (CallAsync set_initial_pose_request),
      Did (Log INFO ''Set initial pose called''),
      Recv (ClockNow \<lparr>sec = 5, nanosec = 7\<rparr>),
      Did (PublishPeople (people_msg \<lparr>sec = 5, nanosec = 7\<rparr>)),
      Did (Log INFO ''Published people message''),
      Recv (ServerReady ComputePathThroughPoses True),
      Did (Log INFO ''Sending goal to ComputePathThroughPoses''),
      Did (SendGoalCompute compute_goal_msg)]"
  by (simp add: main_def TrajGeneratorNode_init_def env_up_def wait_for_service_loop.simps
     node_created_def did_def recv_def set_initial_pose_def publish_people_def Let_def
     compute_path_through_poses_def add_done_callback_def)

end
